theory Spec2Isabelle
  imports Complex_Main "HOL-Library.Word"
begin

unbundle bit_operations_syntax

section \<open>The sensor model node of unreal_cv_ros (sensor_model.py)\<close>

text \<open>
  The node turns a colour image and a ray-length depth image of a simulated pinhole camera
  into a coloured point cloud. This theory embeds \<^verbatim>\<open>SensorModel.__init__\<close>,
  \<^verbatim>\<open>callback\<close>, \<^verbatim>\<open>depth_to_3d\<close> and \<^verbatim>\<open>rgb_to_float\<close>, together with the parts of
  numpy and struct they call.

  Conventions of the embedding:
  \<^item> A Python or numpy float that is finite is a \<open>real\<close>: the arithmetic is exact, rounding
    and overflow of IEEE doubles are not modelled. The one place where bits matter, the
    colour channel, goes through an explicit model of the binary32 format.
  \<^item> numpy does not raise on a division by zero or on the root of a negative number: it
    stores inf or nan and warns. Such an element is \<open>NonFinite\<close> here, and so is everything
    computed from one: the model does not follow IEEE arithmetic on inf and nan.
  \<^item> Exceptions are values of the type \<open>error\<close>; a function that can raise returns
    \<open>error + 'a\<close>.
  \<^item> The source does not say which Python runs it. The only place where it matters is
    \<^verbatim>\<open>width/2\<close> on integers, which floors in Python 2 and does not in Python 3; the
    model takes the version as a parameter and the theorems hold for both.
\<close>

subsection \<open>Errors\<close>

datatype error =
  ValueError          \<comment> \<open>numpy: shapes that cannot be broadcast, stacked or reshaped\<close>
| StructError         \<comment> \<open>struct.error: a value out of range, a buffer of the wrong size\<close>
| LoadError           \<comment> \<open>np.load on a buffer that is not a serialised array\<close>
| ServiceException    \<comment> \<open>rospy: the call of get_camera_params failed\<close>

definition bind_err :: "error + 'a \<Rightarrow> ('a \<Rightarrow> error + 'b) \<Rightarrow> error + 'b" where
  "bind_err m k = (case m of Inl e \<Rightarrow> Inl e | Inr v \<Rightarrow> k v)"

subsection \<open>Floats\<close>

datatype npfloat = Finite real | NonFinite

fun np_add :: "npfloat \<Rightarrow> npfloat \<Rightarrow> npfloat" where
  "np_add (Finite a) (Finite b) = Finite (a + b)"
| "np_add _ _ = NonFinite"

fun np_subtract :: "npfloat \<Rightarrow> npfloat \<Rightarrow> npfloat" where
  "np_subtract (Finite a) (Finite b) = Finite (a - b)"
| "np_subtract _ _ = NonFinite"

fun np_multiply :: "npfloat \<Rightarrow> npfloat \<Rightarrow> npfloat" where
  "np_multiply (Finite a) (Finite b) = Finite (a * b)"
| "np_multiply _ _ = NonFinite"

fun np_divide :: "npfloat \<Rightarrow> npfloat \<Rightarrow> npfloat" where
  "np_divide (Finite a) (Finite b) = (if b = 0 then NonFinite else Finite (a / b))"
| "np_divide _ _ = NonFinite"

text \<open>\<^verbatim>\<open>a ** 2\<close> and \<^verbatim>\<open>a ** 0.5\<close>, the two powers the source takes.\<close>

fun np_square :: "npfloat \<Rightarrow> npfloat" where
  "np_square (Finite a) = Finite (a ^ 2)"
| "np_square NonFinite = NonFinite"

fun np_sqrt :: "npfloat \<Rightarrow> npfloat" where
  "np_sqrt (Finite a) = (if a < 0 then NonFinite else Finite (sqrt a))"
| "np_sqrt NonFinite = NonFinite"

datatype python = Python2 | Python3

text \<open>\<^verbatim>\<open>n/2\<close> for a Python int \<open>n\<close>.\<close>

definition py_half :: "python \<Rightarrow> int \<Rightarrow> real" where
  "py_half py n = (case py of Python2 \<Rightarrow> of_int (n div 2) | Python3 \<Rightarrow> of_int n / 2)"

subsection \<open>Arrays\<close>

text \<open>
  A two-dimensional numpy array: its shape and its elements by (row, column). Elements
  outside the shape are never read by the model. A one-dimensional array is a list.
\<close>

record 'a array2 =
  dim0 :: nat
  dim1 :: nat
  elt :: "nat \<Rightarrow> nat \<Rightarrow> 'a"

definition arr_map :: "('a \<Rightarrow> 'b) \<Rightarrow> 'a array2 \<Rightarrow> 'b array2" where
  "arr_map f A = \<lparr>dim0 = dim0 A, dim1 = dim1 A, elt = (\<lambda>i j. f (elt A i j))\<rparr>"

text \<open>
  numpy's broadcasting of one axis: equal extents, or one of them 1, which is then
  repeated along the other.
\<close>

definition broadcast_dim :: "nat \<Rightarrow> nat \<Rightarrow> nat option" where
  "broadcast_dim a b =
     (if a = b then Some a else if a = 1 then Some b else if b = 1 then Some a else None)"

definition bidx :: "nat \<Rightarrow> nat \<Rightarrow> nat" where
  "bidx n i = (if n = 1 then 0 else i)"

definition np_binop :: "('a \<Rightarrow> 'b \<Rightarrow> 'c) \<Rightarrow> 'a array2 \<Rightarrow> 'b array2 \<Rightarrow> error + 'c array2" where
  "np_binop f A B =
     (case (broadcast_dim (dim0 A) (dim0 B), broadcast_dim (dim1 A) (dim1 B)) of
        (Some n0, Some n1) \<Rightarrow>
          Inr \<lparr>dim0 = n0, dim1 = n1,
               elt = (\<lambda>i j. f (elt A (bidx (dim0 A) i) (bidx (dim1 A) j))
                             (elt B (bidx (dim0 B) i) (bidx (dim1 B) j)))\<rparr>
      | _ \<Rightarrow> Inl ValueError)"

text \<open>
  \<^verbatim>\<open>np.linspace(start, stop, num=num)\<close>: \<open>num\<close> evenly spaced samples, both ends included.
\<close>

definition linspace :: "real \<Rightarrow> real \<Rightarrow> nat \<Rightarrow> npfloat list" where
  "linspace start stop num =
     map (\<lambda>i. Finite (if num = 1 then start
                       else start + real i * ((stop - start) / real (num - 1))))
       [0..<num]"

text \<open>
  \<^verbatim>\<open>np.meshgrid(xs, ys)\<close> with the default indexing: two arrays of shape
  (len ys, len xs), the first repeating \<open>xs\<close> in every row, the second \<open>ys\<close> in every column.
\<close>

definition meshgrid :: "'a list \<Rightarrow> 'a list \<Rightarrow> 'a array2 \<times> 'a array2" where
  "meshgrid xs ys =
     (\<lparr>dim0 = length ys, dim1 = length xs, elt = (\<lambda>i j. xs ! j)\<rparr>,
      \<lparr>dim0 = length ys, dim1 = length xs, elt = (\<lambda>i j. ys ! i)\<rparr>)"

text \<open>
  \<^verbatim>\<open>np.dstack\<close> of arrays of one shape: the elements side by side along a third axis.
  Here for three planes (the coordinates) and for a three-plane array with one more
  plane (the colour).
\<close>

definition same_shape :: "'a array2 \<Rightarrow> 'b array2 \<Rightarrow> bool" where
  "same_shape A B = (dim0 A = dim0 B \<and> dim1 A = dim1 B)"

definition dstack3 :: "'a array2 \<Rightarrow> 'a array2 \<Rightarrow> 'a array2 \<Rightarrow> error + ('a \<times> 'a \<times> 'a) array2" where
  "dstack3 X Y Z =
     (if same_shape X Y \<and> same_shape X Z
      then Inr \<lparr>dim0 = dim0 X, dim1 = dim1 X, elt = (\<lambda>i j. (elt X i j, elt Y i j, elt Z i j))\<rparr>
      else Inl ValueError)"

definition dstack_rgb ::
  "('a \<times> 'a \<times> 'a) array2 \<Rightarrow> 'a array2 \<Rightarrow> error + ('a \<times> 'a \<times> 'a \<times> 'a) array2" where
  "dstack_rgb P C =
     (if same_shape P C
      then Inr \<lparr>dim0 = dim0 P, dim1 = dim1 P,
                elt = (\<lambda>i j. case elt P i j of (x, y, z) \<Rightarrow> (x, y, z, elt C i j))\<rparr>
      else Inl ValueError)"

text \<open>
  \<^verbatim>\<open>np.ravel\<close> and the order of \<^verbatim>\<open>tostring\<close>: the elements row after row.
  \<^verbatim>\<open>reshape((h, w))\<close> of a one-dimensional array is the inverse, and raises when the
  number of elements is not h times w.
\<close>

definition ravel :: "'a array2 \<Rightarrow> 'a list" where
  "ravel A = map (\<lambda>k. elt A (k div dim1 A) (k mod dim1 A)) [0..<dim0 A * dim1 A]"

definition reshape :: "'a list \<Rightarrow> nat \<Rightarrow> nat \<Rightarrow> error + 'a array2" where
  "reshape xs h w =
     (if length xs = h * w
      then Inr \<lparr>dim0 = h, dim1 = w, elt = (\<lambda>i j. xs ! (i * w + j))\<rparr>
      else Inl ValueError)"

text \<open>
  A buffer handed to \<^verbatim>\<open>np.load\<close>: either the serialisation of an array, given here by the
  array it decodes to, or something else, on which \<^verbatim>\<open>np.load\<close> raises. The element type
  and the number of axes of the decoded array are fixed by the type of the model: a depth
  image is a two-dimensional array of floats, a colour image an array of three unsigned
  bytes (r, g, b) by pixel.
\<close>

datatype 'a npy = Npy 'a | Malformed

fun np_load :: "'a npy \<Rightarrow> error + 'a" where
  "np_load (Npy a) = Inr a"
| "np_load Malformed = Inl LoadError"

subsection \<open>struct and the binary32 format\<close>

text \<open>
  \<^verbatim>\<open>struct.pack\<close> and \<^verbatim>\<open>unpack\<close> in native mode, on a little-endian machine (the message
  says so itself: \<^verbatim>\<open>is_bigendian = False\<close>): an \<^verbatim>\<open>i\<close> and an \<^verbatim>\<open>f\<close> are four bytes each, the
  least significant first, and items of one kind follow each other without padding.
\<close>

definition le_bytes :: "32 word \<Rightarrow> 8 word list" where
  "le_bytes w = [ucast w, ucast (drop_bit 8 w), ucast (drop_bit 16 w), ucast (drop_bit 24 w)]"

definition of_le_bytes :: "8 word list \<Rightarrow> 32 word" where
  "of_le_bytes bs = foldr (\<lambda>b acc. ucast b OR push_bit 8 acc) bs 0"

definition pow2 :: "int \<Rightarrow> real" where
  "pow2 k = (if 0 \<le> k then 2 ^ nat k else 1 / 2 ^ nat (- k))"

text \<open>
  The number a binary32 pattern stands for: one sign bit, eight bits of exponent, 23 bits
  of fraction. The exponent 255 is inf or nan, the exponent 0 a subnormal number or zero.
\<close>

definition f32_value :: "32 word \<Rightarrow> npfloat" where
  "f32_value w =
     (let n = unat w;
          e = (n div 2 ^ 23) mod 2 ^ 8;
          m = n mod 2 ^ 23;
          sign = (if n div 2 ^ 31 = 1 then - 1 else 1)
      in if e = 255 then NonFinite
         else if e = 0 then Finite (sign * (real m * pow2 (- 149)))
         else Finite (sign * (real (2 ^ 23 + m) * pow2 (int e - 150))))"

text \<open>
  \<^verbatim>\<open>pack('%di' % n, *vs)\<close>: \<open>n\<close> signed 32-bit integers; raises when the number of
  arguments is not \<open>n\<close> or one of them does not fit.
\<close>

definition pack_i :: "nat \<Rightarrow> int list \<Rightarrow> error + 8 word list" where
  "pack_i n vs =
     (if length vs \<noteq> n then Inl StructError
      else if list_all (\<lambda>v. - (2 ^ 31) \<le> v \<and> v < 2 ^ 31) vs
      then Inr (concat (map (\<lambda>v. le_bytes (word_of_int v)) vs))
      else Inl StructError)"

text \<open>
  \<^verbatim>\<open>unpack('%df' % n, bs)\<close>: the buffer read as \<open>n\<close> binary32 numbers, each returned as a
  Python float of the same value; raises when the buffer is not 4 n bytes long.
\<close>

definition unpack_f :: "nat \<Rightarrow> 8 word list \<Rightarrow> error + npfloat list" where
  "unpack_f n bs =
     (if length bs \<noteq> 4 * n then Inl StructError
      else Inr (map (\<lambda>k. f32_value (of_le_bytes (take 4 (drop (4 * k) bs)))) [0..<n]))"

text \<open>
  \<^verbatim>\<open>np.float32(x)\<close> for a finite \<open>x\<close>, as the bit pattern that \<^verbatim>\<open>tostring\<close> writes: the
  nearest binary32 number, a tie going to the even fraction, and inf when the result is
  too large. \<open>f32_exponent a 1\<close> is the exponent field of the binade that holds \<open>a\<close>
  (1 for a subnormal number too), and a fraction that rounds up to \<open>2 ^ 24\<close> carries into
  the exponent by the addition. A real number has no negative zero: 0 is +0.0 here.
\<close>

function f32_exponent :: "real \<Rightarrow> nat \<Rightarrow> nat" where
  "f32_exponent a e =
     (if e < 254 \<and> pow2 (int e - 126) \<le> a then f32_exponent a (e + 1) else e)"
  by pat_completeness auto
termination
  by (relation "measure (\<lambda>(a, e). 254 - e)") auto

declare f32_exponent.simps [simp del]

definition round_half_even :: "real \<Rightarrow> int" where
  "round_half_even x =
     (let n = \<lfloor>x\<rfloor>; d = x - of_int n
      in if d < 1 / 2 then n else if 1 / 2 < d then n + 1 else if even n then n else n + 1)"

definition np_float32 :: "real \<Rightarrow> 32 word" where
  "np_float32 x =
     (let a = \<bar>x\<bar>;
          e = f32_exponent a 1;
          m = round_half_even (a / pow2 (int e - 150));
          n = (int e - 1) * 2 ^ 23 + m;
          sign = (if x < 0 then 2 ^ 31 else 0)
      in word_of_int (sign + (if 255 * 2 ^ 23 \<le> n then 255 * 2 ^ 23 else n)))"

subsection \<open>The node\<close>

text \<open>
  Modelled from the spec: the service type GetCameraParams is not among the sources; the
  spec gives its reply as width: uint, height: uint, focal_length: float.
\<close>

record camera_response =
  Width :: nat
  Height :: nat
  FocalLength :: real

text \<open>
  The object: \<open>model\<close> is the attribute \<^verbatim>\<open>self.model\<close> (\<open>None\<close> while it is not set),
  \<open>camera_params\<close> the list \<^verbatim>\<open>[Width, Height, FocalLength]\<close>, \<open>pub\<close> the messages published
  on ue_sensor_out so far, \<open>subscribed\<close> whether ue_sensor_raw delivers to \<open>callback\<close>, and
  \<open>rosout\<close> the lines logged.
\<close>

datatype loglevel = Info | Fatal

record point_field =
  name :: string
  offset :: nat
  datatype_id :: nat
  count :: nat

definition FLOAT32 :: nat where
  "FLOAT32 = 7"

text \<open>
  The message sensor_msgs/PointCloud2. \<open>data\<close> holds the point records of
  \<^verbatim>\<open>np.float32(data).tostring()\<close> in their order in the buffer, each as the four numbers
  x, y, z, rgb before the cast; the bit pattern the cast gives a cell is \<open>np_float32\<close> of it.
\<close>

record pointcloud2 =
  stamp :: nat
  frame_id :: string
  width :: nat
  height :: nat
  msg_fields :: "point_field list"
  is_bigendian :: bool
  point_step :: nat
  row_step :: nat
  is_dense :: bool
  data :: "(npfloat \<times> npfloat \<times> npfloat \<times> npfloat) list"

record sensor_model =
  model :: "string option"
  camera_params :: "nat \<times> nat \<times> real"
  pub :: "pointcloud2 list"
  subscribed :: bool
  rosout :: "(loglevel \<times> string) list"

definition model_types :: "(string \<times> string) list" where
  "model_types = [(''ground_truth'', ''ground_truth'')]"

definition unknown_model_warning :: "string \<Rightarrow> string" where
  "unknown_model_warning model_type_in =
     ''Unknown sensor model '' @ [CHR 0x27] @ model_type_in @ [CHR 0x27]
       @ ''. Implemented models are: ''
       @ concat (map (\<lambda>(m, _). [CHR 0x27] @ m @ [CHR 0x27] @ '', '') model_types)"

text \<open>
  \<^verbatim>\<open>__init__\<close>. Its inputs are the parameter \<^verbatim>\<open>~model_type\<close> and the outcome of the call of
  the service get_camera_params (\<^verbatim>\<open>wait_for_service\<close> blocks until there is one).
  \<^verbatim>\<open>rospy.logfatal\<close> writes a line at level FATAL and returns.
\<close>

definition init :: "string \<Rightarrow> error + camera_response \<Rightarrow> error + sensor_model" where
  "init model_type_in service =
     (let selected = (case map_of model_types model_type_in of
                        None \<Rightarrow> ''NotFound'' | Some m \<Rightarrow> m);
          warning = unknown_model_warning model_type_in;
          log1 = (if selected = ''NotFound''
                  then [(Fatal, take (length warning - 2) warning)] else []);
          model1 = (if selected = ''NotFound'' then None else Some selected);
          log2 = log1 @ [(Info, ''Waiting for unreal_ros_client camera params ...'')]
      in bind_err service (\<lambda>resp.
           Inr \<lparr>model = model1,
                camera_params = (Width resp, Height resp, FocalLength resp),
                pub = [],
                subscribed = True,
                rosout = log2 @ [(Info, ''Sensor model setup cleanly.'')]\<rparr>))"

text \<open>
  The first half of \<^verbatim>\<open>depth_to_3d\<close>, up to \<^verbatim>\<open>distance\<close>: the offsets of every pixel from
  the image centre, \<^verbatim>\<open>cols - center_x\<close> and \<^verbatim>\<open>rows - center_y\<close>, and their length.
\<close>

definition pixel_grid ::
  "python \<Rightarrow> sensor_model \<Rightarrow> error + (npfloat array2 \<times> npfloat array2 \<times> npfloat array2)" where
  "pixel_grid py self =
     (let height = fst (snd (camera_params self));
          width = fst (camera_params self);
          center_x = py_half py (int width);
          center_y = py_half py (int height);
          (cols, rows) = meshgrid (linspace 0 (of_int (int width - 1)) width)
                                  (linspace 0 (of_int (int height - 1)) height);
          dx = arr_map (\<lambda>c. np_subtract c (Finite center_x)) cols;
          dy = arr_map (\<lambda>r. np_subtract r (Finite center_y)) rows
      in bind_err (np_binop np_add (arr_map np_square dy) (arr_map np_square dx)) (\<lambda>s.
           Inr (dx, dy, arr_map np_sqrt s)))"

text \<open>\<^verbatim>\<open>depth_to_3d\<close>: the array of the points (x, y, z), one for every pixel.\<close>

definition depth_to_3d ::
  "python \<Rightarrow> sensor_model \<Rightarrow> real array2
     \<Rightarrow> error + (npfloat \<times> npfloat \<times> npfloat) array2" where
  "depth_to_3d py self img_depth =
     (let f = Finite (snd (snd (camera_params self)))
      in bind_err (pixel_grid py self) (\<lambda>(dx, dy, distance).
         let ratio = arr_map (\<lambda>d. np_divide d f) distance;
             divisor = arr_map np_sqrt (arr_map (np_add (Finite 1)) (arr_map np_square ratio))
         in bind_err (np_binop np_divide (arr_map Finite img_depth) divisor) (\<lambda>points_z.
            bind_err (np_binop np_multiply points_z dx) (\<lambda>zx.
            bind_err (np_binop np_multiply points_z dy) (\<lambda>zy.
              dstack3 (arr_map (\<lambda>v. np_divide v f) zx)
                      (arr_map (\<lambda>v. np_divide v f) zy)
                      points_z)))))"

text \<open>
  \<^verbatim>\<open>rgb_to_float\<close>: the three channels of every pixel in one 32-bit integer, whose four
  bytes are then read as a binary32 number.
\<close>

definition rgb_to_float :: "(8 word \<times> 8 word \<times> 8 word) array2 \<Rightarrow> error + npfloat array2" where
  "rgb_to_float img_color =
     (let r = map uint (ravel (arr_map (\<lambda>(r, g, b). r) img_color));
          g = map uint (ravel (arr_map (\<lambda>(r, g, b). g) img_color));
          b = map uint (ravel (arr_map (\<lambda>(r, g, b). b) img_color));
          color = map2 (+) (map2 (+) (map (push_bit 16) r) (map (push_bit 8) g)) b
      in bind_err (pack_i (length color) color) (\<lambda>packed.
         bind_err (unpack_f (length color) packed) (\<lambda>unpacked.
           reshape unpacked (dim0 img_color) (dim1 img_color))))"

text \<open>The message on ue_sensor_raw: a time stamp and two serialised arrays.\<close>

record ue_sensor_raw =
  header_stamp :: nat
  color_data :: "(8 word \<times> 8 word \<times> 8 word) array2 npy"
  depth_data :: "real array2 npy"

text \<open>
  \<^verbatim>\<open>callback\<close>. An exception leaves the object as it was and is the result \<open>Inl\<close>; otherwise
  the result is the object after \<^verbatim>\<open>self.pub.publish(msg)\<close>.
\<close>

definition callback :: "python \<Rightarrow> sensor_model \<Rightarrow> ue_sensor_raw \<Rightarrow> error + sensor_model" where
  "callback py self ros_data =
     bind_err (np_load (color_data ros_data)) (\<lambda>img_color.
     bind_err (np_load (depth_data ros_data)) (\<lambda>img_depth.
     bind_err (depth_to_3d py self img_depth) (\<lambda>pointcloud.
     bind_err (rgb_to_float img_color) (\<lambda>rgb.
     bind_err (dstack_rgb pointcloud rgb) (\<lambda>data4.
       let msg = \<lparr>stamp = header_stamp ros_data,
                  frame_id = ''camera'',
                  width = dim0 pointcloud,
                  height = dim1 pointcloud,
                  msg_fields = [\<lparr>name = ''x'', offset = 0, datatype_id = FLOAT32, count = 1\<rparr>,
                                \<lparr>name = ''y'', offset = 4, datatype_id = FLOAT32, count = 1\<rparr>,
                                \<lparr>name = ''z'', offset = 8, datatype_id = FLOAT32, count = 1\<rparr>,
                                \<lparr>name = ''rgb'', offset = 12, datatype_id = FLOAT32, count = 1\<rparr>],
                  is_bigendian = False,
                  point_step = 16,
                  row_step = 16 * dim0 pointcloud,
                  is_dense = True,
                  data = ravel data4\<rparr>
       in Inr (self\<lparr>pub := pub self @ [msg]\<rparr>))))))"

subsection \<open>Notions used in the statements\<close>

text \<open>
  The element of \<^verbatim>\<open>color\<close> in \<^verbatim>\<open>rgb_to_float\<close> that belongs to one pixel.
\<close>

definition pixel_color :: "8 word \<times> 8 word \<times> 8 word \<Rightarrow> int" where
  "pixel_color p = (case p of (r, g, b) \<Rightarrow> push_bit 16 (uint r) + push_bit 8 (uint g) + uint b)"

text \<open>
  The colour packing in the words of the specification: the 24-bit integer
  \<^verbatim>\<open>(r<<16) | (g<<8) | b\<close>, and what a consumer does to read the channels back from the
  32 bits of the rgb field.
\<close>

definition spec_packed_rgb :: "8 word \<Rightarrow> 8 word \<Rightarrow> 8 word \<Rightarrow> 32 word" where
  "spec_packed_rgb r g b = push_bit 16 (ucast r) OR push_bit 8 (ucast g) OR ucast b"

definition spec_unpack_rgb :: "32 word \<Rightarrow> 8 word \<times> 8 word \<times> 8 word" where
  "spec_unpack_rgb c = (ucast (drop_bit 16 c), ucast (drop_bit 8 c), ucast c)"

subsection \<open>Example inputs\<close>

text \<open>
  The scenario of the specification: a camera of width 4, height 2 and focal length 1, a
  depth image that is 2 everywhere and a colour image that is red everywhere.
\<close>

definition example_response :: camera_response where
  "example_response = \<lparr>Width = 4, Height = 2, FocalLength = 1\<rparr>"

definition example_node :: sensor_model where
  "example_node =
     \<lparr>model = Some ''ground_truth'',
      camera_params = (4, 2, 1),
      pub = [],
      subscribed = True,
      rosout = [(Info, ''Waiting for unreal_ros_client camera params ...''),
                (Info, ''Sensor model setup cleanly.'')]\<rparr>"

definition example_depth :: "real array2" where
  "example_depth = \<lparr>dim0 = 2, dim1 = 4, elt = (\<lambda>i j. 2)\<rparr>"

definition example_color :: "(8 word \<times> 8 word \<times> 8 word) array2" where
  "example_color = \<lparr>dim0 = 2, dim1 = 4, elt = (\<lambda>i j. (255, 0, 0))\<rparr>"

definition example_frame :: ue_sensor_raw where
  "example_frame =
     \<lparr>header_stamp = 7, color_data = Npy example_color, depth_data = Npy example_depth\<rparr>"

text \<open>A depth image of zeros, and one of a single row.\<close>

definition zero_depth :: "real array2" where
  "zero_depth = \<lparr>dim0 = 2, dim1 = 4, elt = (\<lambda>i j. 0)\<rparr>"

definition zero_depth_frame :: ue_sensor_raw where
  "zero_depth_frame =
     \<lparr>header_stamp = 7, color_data = Npy example_color, depth_data = Npy zero_depth\<rparr>"

definition one_row_depth :: "real array2" where
  "one_row_depth = \<lparr>dim0 = 1, dim1 = 4, elt = (\<lambda>i j. 2)\<rparr>"

definition one_row_frame :: ue_sensor_raw where
  "one_row_frame =
     \<lparr>header_stamp = 7, color_data = Npy example_color, depth_data = Npy one_row_depth\<rparr>"

text \<open>A colour image one column wider than the depth image.\<close>

definition wide_color :: "(8 word \<times> 8 word \<times> 8 word) array2" where
  "wide_color = \<lparr>dim0 = 2, dim1 = 5, elt = (\<lambda>i j. (255, 0, 0))\<rparr>"

definition wide_color_frame :: ue_sensor_raw where
  "wide_color_frame =
     \<lparr>header_stamp = 7, color_data = Npy wide_color, depth_data = Npy example_depth\<rparr>"

text \<open>A reply of the camera service that no camera has.\<close>

definition zero_response :: camera_response where
  "zero_response = \<lparr>Width = 0, Height = 0, FocalLength = 0\<rparr>"

section \<open>Properties\<close>

subsection \<open>Arrays and the pixel grid\<close>


lemma bidx_less: "i < n \<Longrightarrow> bidx n i = i"
  by (auto simp: bidx_def)

lemma broadcast_dim_same: "broadcast_dim n n = Some n"
  by (simp add: broadcast_dim_def)

lemma linspace_length: "length (linspace a b n) = n"
  by (simp add: linspace_def)

lemma linspace_nth:
  assumes "j < n"
  shows "linspace 0 (real n - 1) n ! j = Finite (real j)"
proof (cases "n = 1")
  case True
  with assms show ?thesis by (simp add: linspace_def)
next
  case False
  with assms have "real n - 1 \<noteq> 0"
    by auto
  with assms False show ?thesis
    by (simp add: linspace_def of_nat_diff)
qed

lemma np_binop_same:
  "dim0 A = dim0 B \<Longrightarrow> dim1 A = dim1 B \<Longrightarrow>
   np_binop f A B = Inr \<lparr>dim0 = dim0 A, dim1 = dim1 A,
               elt = (\<lambda>i j. f (elt A (bidx (dim0 A) i) (bidx (dim1 A) j))
                             (elt B (bidx (dim0 B) i) (bidx (dim1 B) j)))\<rparr>"
  by (simp add: np_binop_def broadcast_dim_same)

lemma pixel_grid_Inr:
  assumes cp: "camera_params self = (w, h, f)"
  shows "\<exists>dx dy dist. pixel_grid py self = Inr (dx, dy, dist)
     \<and> dim0 dx = h \<and> dim1 dx = w \<and> dim0 dy = h \<and> dim1 dy = w \<and> dim0 dist = h \<and> dim1 dist = w
     \<and> (\<forall>i j. elt dx i j = np_subtract (linspace 0 (real w - 1) w ! j) (Finite (py_half py (int w)))
          \<and> elt dy i j = np_subtract (linspace 0 (real h - 1) h ! i) (Finite (py_half py (int h)))
          \<and> elt dist i j = np_sqrt (np_add (np_square (elt dy (bidx h i) (bidx w j)))
                                             (np_square (elt dx (bidx h i) (bidx w j)))))"
  unfolding pixel_grid_def Let_def meshgrid_def cp
  by (simp add: np_binop_same arr_map_def bind_err_def linspace_length)

lemma pixel_grid_at:
  assumes cp: "camera_params self = (w, h, f)"
  obtains dx dy dist where "pixel_grid py self = Inr (dx, dy, dist)"
    "dim0 dx = h" "dim1 dx = w" "dim0 dy = h" "dim1 dy = w" "dim0 dist = h" "dim1 dist = w"
    "\<And>i j. i < h \<Longrightarrow> j < w \<Longrightarrow> elt dx i j = Finite (real j - py_half py (int w))"
    "\<And>i j. i < h \<Longrightarrow> j < w \<Longrightarrow> elt dy i j = Finite (real i - py_half py (int h))"
    "\<And>i j. i < h \<Longrightarrow> j < w \<Longrightarrow> elt dist i j =
        Finite (sqrt ((real i - py_half py (int h))\<^sup>2 + (real j - py_half py (int w))\<^sup>2))"
proof -
  from pixel_grid_Inr [OF cp, of py] obtain dx dy dist where
    g: "pixel_grid py self = Inr (dx, dy, dist)"
    and dims: "dim0 dx = h" "dim1 dx = w" "dim0 dy = h" "dim1 dy = w" "dim0 dist = h" "dim1 dist = w"
    and ex: "\<And>i j. elt dx i j = np_subtract (linspace 0 (real w - 1) w ! j) (Finite (py_half py (int w)))"
    and ey: "\<And>i j. elt dy i j = np_subtract (linspace 0 (real h - 1) h ! i) (Finite (py_half py (int h)))"
    and ed: "\<And>i j. elt dist i j = np_sqrt (np_add (np_square (elt dy (bidx h i) (bidx w j)))
                                             (np_square (elt dx (bidx h i) (bidx w j))))"
    by auto
  have x: "elt dx i j = Finite (real j - py_half py (int w))" if "i < h" "j < w" for i j
    using that by (simp add: ex linspace_nth)
  have y: "elt dy i j = Finite (real i - py_half py (int h))" if "i < h" "j < w" for i j
    using that by (simp add: ey linspace_nth)
  have d: "elt dist i j =
        Finite (sqrt ((real i - py_half py (int h))\<^sup>2 + (real j - py_half py (int w))\<^sup>2))"
    if "i < h" "j < w" for i j
    using that by (simp add: ed bidx_less x y not_sum_power2_lt_zero)
  from g dims x y d show thesis by (rule that)
qed


lemma depth_to_3d_Inr:
  assumes cp: "camera_params self = (w, h, f)"
    and shape: "dim0 d = h" "dim1 d = w" and f: "f \<noteq> 0"
  shows "\<exists>P. depth_to_3d py self d = Inr P \<and> dim0 P = h \<and> dim1 P = w
     \<and> (\<forall>i j. i < h \<longrightarrow> j < w \<longrightarrow> elt P i j =
            (let dx = real j - py_half py (int w); dy = real i - py_half py (int h);
                 z = elt d i j / sqrt (1 + (sqrt (dy\<^sup>2 + dx\<^sup>2) / f)\<^sup>2)
             in (Finite (z * dx / f), Finite (z * dy / f), Finite z)))"
proof -
  obtain dx dy dist where
    g: "pixel_grid py self = Inr (dx, dy, dist)"
    and dims: "dim0 dx = h" "dim1 dx = w" "dim0 dy = h" "dim1 dy = w" "dim0 dist = h" "dim1 dist = w"
    and x: "\<And>i j. i < h \<Longrightarrow> j < w \<Longrightarrow> elt dx i j = Finite (real j - py_half py (int w))"
    and y: "\<And>i j. i < h \<Longrightarrow> j < w \<Longrightarrow> elt dy i j = Finite (real i - py_half py (int h))"
    and r: "\<And>i j. i < h \<Longrightarrow> j < w \<Longrightarrow> elt dist i j =
        Finite (sqrt ((real i - py_half py (int h))\<^sup>2 + (real j - py_half py (int w))\<^sup>2))"
    by (rule pixel_grid_at [OF cp, of py]) blast
  have pos: "\<not> 1 + x\<^sup>2 < 0" "1 + x\<^sup>2 \<noteq> 0" for x :: real
    using zero_le_power2 [of x] by linarith+
  show ?thesis
    unfolding depth_to_3d_def Let_def g cp
    using f
    by (simp add: bind_err_def np_binop_same arr_map_def dstack3_def same_shape_def
        shape dims bidx_less x y r pos)
qed

lemma depth_to_3d_at:
  assumes cp: "camera_params self = (w, h, f)"
    and shape: "dim0 d = h" "dim1 d = w" and f: "f \<noteq> 0" and i: "i < h" and j: "j < w"
  shows "\<exists>P. depth_to_3d py self d = Inr P \<and> dim0 P = h \<and> dim1 P = w
     \<and> elt P i j =
            (let dx = real j - py_half py (int w); dy = real i - py_half py (int h);
                 z = elt d i j / sqrt (1 + (sqrt (dy\<^sup>2 + dx\<^sup>2) / f)\<^sup>2)
             in (Finite (z * dx / f), Finite (z * dy / f), Finite z))"
  using depth_to_3d_Inr [OF cp shape f, of py] i j by blast

lemma axial_divisor_ge_1: "1 \<le> sqrt (1 + (x::real)\<^sup>2)"
  by simp

lemma ray_length:
  fixes f depth dx dy :: real
  assumes f: "f \<noteq> 0" and d: "0 \<le> depth"
  defines "z \<equiv> depth / sqrt (1 + (sqrt (dx\<^sup>2 + dy\<^sup>2) / f)\<^sup>2)"
  shows "sqrt ((z * dx / f)\<^sup>2 + (z * dy / f)\<^sup>2 + z\<^sup>2) = depth"
proof -
  define s where "s = 1 + (dx\<^sup>2 + dy\<^sup>2) / f\<^sup>2"
  have s: "0 < s" unfolding s_def
    by (smt (verit) divide_nonneg_nonneg zero_le_power2)
  have q: "(sqrt (dx\<^sup>2 + dy\<^sup>2) / f)\<^sup>2 = (dx\<^sup>2 + dy\<^sup>2) / f\<^sup>2"
    by (simp add: power_divide)
  have z: "z = depth / sqrt s"
    by (simp add: z_def q s_def)
  have "(z * dx / f)\<^sup>2 + (z * dy / f)\<^sup>2 + z\<^sup>2 = z\<^sup>2 * s"
    using f by (simp add: s_def power_divide power_mult_distrib field_simps)
  also have "\<dots> = depth\<^sup>2"
    using s by (simp add: z power_divide)
  finally show ?thesis
    using d by simp
qed

subsection \<open>Row-major order, bytes and the binary32 format\<close>

lemma length_ravel: "length (ravel A) = dim0 A * dim1 A"
  by (simp add: ravel_def)

lemma row_major_less:
  fixes i j h w :: nat
  assumes "i < h" "j < w"
  shows "i * w + j < h * w"
proof -
  have "i * w + j < i * w + w" using assms by simp
  also have "\<dots> = (Suc i) * w" by simp
  also have "\<dots> \<le> h * w" using assms by (intro mult_le_mono1) simp
  finally show ?thesis .
qed

lemma ravel_nth:
  assumes "i < dim0 A" "j < dim1 A"
  shows "ravel A ! (i * dim1 A + j) = elt A i j"
  using assms row_major_less [OF assms] by (simp add: ravel_def)

lemma of_le_bytes_le_bytes: "of_le_bytes (le_bytes w) = w"
proof (rule bit_word_eqI)
  fix n
  assume "n < LENGTH(32)"
  then have n: "n < 32" by simp
  consider "n < 8" | "8 \<le> n" "n < 16" | "16 \<le> n" "n < 24" | "24 \<le> n"
    by linarith
  then show "bit (of_le_bytes (le_bytes w)) n = bit w n"
  proof cases
    case 1
    then show ?thesis by (simp add: of_le_bytes_def le_bytes_def bit_simps)
  next
    case 2
    then show ?thesis by (auto simp: of_le_bytes_def le_bytes_def bit_simps)
  next
    case 3
    then show ?thesis by (auto simp: of_le_bytes_def le_bytes_def bit_simps)
  next
    case 4
    with n show ?thesis by (auto simp: of_le_bytes_def le_bytes_def bit_simps)
  qed
qed

lemma length_le_bytes: "length (le_bytes w) = 4"
  by (simp add: le_bytes_def)

lemma chunk_concat:
  assumes "k < length ws"
  shows "take 4 (drop (4 * k) (concat (map le_bytes ws))) = le_bytes (ws ! k)"
  using assms
proof (induction ws arbitrary: k)
  case Nil
  then show ?case by simp
next
  case (Cons a ws)
  show ?case
  proof (cases k)
    case 0
    then show ?thesis by (simp add: length_le_bytes)
  next
    case (Suc k')
    with Cons.prems have "k' < length ws" by simp
    from Cons.IH [OF this] Suc show ?thesis
      by (simp add: length_le_bytes)
  qed
qed

lemma length_concat_le_bytes: "length (concat (map le_bytes ws)) = 4 * length ws"
  by (induction ws) (simp_all add: length_le_bytes)

lemma unpack_f_pack:
  "unpack_f (length ws) (concat (map le_bytes ws)) = Inr (map f32_value ws)"
  unfolding unpack_f_def
  by (auto simp: length_concat_le_bytes chunk_concat of_le_bytes_le_bytes intro!: nth_equalityI)


lemma color_bounds:
  fixes r g b :: "8 word"
  shows "0 \<le> push_bit 16 (uint r) + push_bit 8 (uint g) + uint b"
    and "push_bit 16 (uint r) + push_bit 8 (uint g) + uint b < 2 ^ 24"
proof -
  have "uint r < 256" "uint g < 256" "uint b < 256" "0 \<le> uint r" "0 \<le> uint g" "0 \<le> uint b"
    using uint_bounded [of r] uint_bounded [of g] uint_bounded [of b] by simp_all
  then show "0 \<le> push_bit 16 (uint r) + push_bit 8 (uint g) + uint b"
    and "push_bit 16 (uint r) + push_bit 8 (uint g) + uint b < 2 ^ 24"
    by (simp_all add: push_bit_eq_mult)
qed

lemma f32_value_small:
  assumes "0 \<le> c" "c < 2 ^ 24"
  shows "f32_value (word_of_int c) = Finite (real_of_int c / 2 ^ 149)"
proof -
  define n where "n = nat c"
  have n: "n < 2 ^ 24" "c = int n" using assms by (simp_all add: n_def)
  have "n < 2 ^ 32" using n(1) by simp
  then have u: "unat (word_of_int c :: 32 word) = n"
    unfolding n(2) by (simp add: unat_of_nat)
  have s: "n div 2 ^ 31 = 0" using n by simp
  show ?thesis
  proof (cases "n < 2 ^ 23")
    case True
    then have "n div 2 ^ 23 = 0" "n mod 2 ^ 23 = n" by simp_all
    then show ?thesis
      unfolding f32_value_def Let_def u using s n
      by (simp add: pow2_def)
  next
    case False
    then have d: "n div 2 ^ 23 = 1" using n by (simp add: div_nat_eqI)
    then have m: "n mod 2 ^ 23 = n - 2 ^ 23"
      using False by (simp add: mod_if)
    have "real (2 ^ 23 + (n - 2 ^ 23)) = real n" using False by simp
    then show ?thesis
      unfolding f32_value_def Let_def u d m using s n
      by (simp add: pow2_def)
  qed
qed

lemma round_half_even_int: "round_half_even (of_int c) = c"
  by (simp add: round_half_even_def)

lemma np_float32_small:
  assumes "0 \<le> c" "c < 2 ^ 24"
  shows "np_float32 (real_of_int c / 2 ^ 149) = word_of_int c"
proof -
  define a where "a = real_of_int c / 2 ^ 149"
  have a: "0 \<le> a" "\<bar>a\<bar> = a" using assms by (simp_all add: a_def)
  have "real_of_int c < 2 ^ 24" using assms by (metis of_int_less_numeral_power_cancel_iff)
  then have "a < 1 / 2 ^ 125" unfolding a_def by (simp add: field_simps)
  then have e: "f32_exponent a 1 = 1"
    by (subst f32_exponent.simps) (simp add: pow2_def)
  have m: "a / pow2 (int 1 - 150) = of_int c"
    by (simp add: a_def pow2_def)
  show ?thesis
    unfolding np_float32_def Let_def a_def [symmetric] a e m round_half_even_int
    using a assms by simp
qed

text \<open>The binary32 model on three familiar numbers: 1.0, 0.1 (which is rounded) and -2.0.\<close>

lemma f32_exponent_step:
  "e < 254 \<Longrightarrow> pow2 (int e - 126) \<le> a \<Longrightarrow> f32_exponent a e = f32_exponent a (Suc e)"
  by (subst f32_exponent.simps) simp

lemma f32_exponent_stop:
  "a < pow2 (int e - 126) \<Longrightarrow> f32_exponent a e = e"
  by (subst f32_exponent.simps) simp

lemma pow2_mono: "i \<le> j \<Longrightarrow> pow2 i \<le> pow2 j"
proof -
  have p: "pow2 k = 2 powr (real_of_int k)" for k
    by (cases "0 \<le> k") (simp_all add: pow2_def powr_realpow [symmetric] powr_minus divide_inverse)
  show "i \<le> j \<Longrightarrow> pow2 i \<le> pow2 j"
    by (simp add: p)
qed

lemma f32_exponent_binade:
  assumes "pow2 (int E - 127) \<le> a" "a < pow2 (int E - 126)" "e \<le> E" "E \<le> 254"
  shows "f32_exponent a e = E"
  using assms
proof (induction "E - e" arbitrary: e)
  case 0
  then have "e = E" by simp
  with 0 show ?case by (simp add: f32_exponent_stop)
next
  case (Suc n)
  then have lt: "e < E" by simp
  then have "int e - 126 \<le> int E - 127" by simp
  from pow2_mono [OF this] Suc.prems(1) have "pow2 (int e - 126) \<le> a" by simp
  moreover from lt Suc.prems(4) have "e < 254" by simp
  ultimately have "f32_exponent a e = f32_exponent a (Suc e)"
    by (rule f32_exponent_step [rotated])
  also have "\<dots> = E"
    using Suc by (intro Suc.hyps(1)) simp_all
  finally show ?case .
qed

lemma np_float32_one: "np_float32 1 = 0x3F800000"
proof -
  have e: "f32_exponent 1 (Suc 0) = 127"
    using f32_exponent_binade [of 127 1 1] by (simp add: pow2_def)
  show ?thesis
    unfolding np_float32_def Let_def
    by (simp add: e pow2_def round_half_even_def)
qed

lemma np_float32_tenth: "np_float32 (1 / 10) = 0x3DCCCCCD"
proof -
  have e: "f32_exponent (1 / 10) (Suc 0) = 123"
    using f32_exponent_binade [of 123 "1 / 10" 1] by (simp add: pow2_def)
  have f: "\<lfloor>(67108864::real) / 5\<rfloor> = 13421772"
    by (simp add: floor_eq_iff)
  show ?thesis
    unfolding np_float32_def Let_def
    by (simp add: e pow2_def round_half_even_def f)
qed

lemma np_float32_minus_two: "np_float32 (- 2) = 0xC0000000"
proof -
  have e: "f32_exponent 2 (Suc 0) = 128"
    using f32_exponent_binade [of 128 2 1] by (simp add: pow2_def)
  show ?thesis
    unfolding np_float32_def Let_def
    by (simp add: e pow2_def round_half_even_def)
qed

lemma f32_value_one: "f32_value 0x3F800000 = Finite 1"
  by (simp add: f32_value_def pow2_def)

subsection \<open>The colour channel and the published message\<close>

lemma color_list:
  "map2 (+) (map2 (+) (map (push_bit 16) (map uint (ravel (arr_map (\<lambda>(r, g, b). r) img))))
                      (map (push_bit 8) (map uint (ravel (arr_map (\<lambda>(r, g, b). g) img)))))
            (map uint (ravel (arr_map (\<lambda>(r, g, b). b) img)))
   = map pixel_color (ravel img)"
  by (rule nth_equalityI)
    (auto simp: ravel_def arr_map_def pixel_color_def split: prod.splits)

lemma pixel_color_bounds: "0 \<le> pixel_color p" "pixel_color p < 2 ^ 24"
  using color_bounds by (auto simp: pixel_color_def split: prod.splits)

lemma pack_i_colors:
  "pack_i (length (map pixel_color ps)) (map pixel_color ps)
   = Inr (concat (map le_bytes (map (\<lambda>p. word_of_int (pixel_color p)) ps)))"
proof -
  have "- (2 ^ 31) \<le> pixel_color p \<and> pixel_color p < 2 ^ 31" for p
    using pixel_color_bounds [of p] by auto
  then show ?thesis
    by (simp add: pack_i_def list_all_iff comp_def)
qed

lemma rgb_to_float_Inr:
  "\<exists>C. rgb_to_float img = Inr C \<and> dim0 C = dim0 img \<and> dim1 C = dim1 img
     \<and> (\<forall>i j. i < dim0 img \<longrightarrow> j < dim1 img \<longrightarrow>
           elt C i j = f32_value (word_of_int (pixel_color (elt img i j))))"
proof -
  let ?ws = "map (\<lambda>p. word_of_int (pixel_color p) :: 32 word) (ravel img)"
  have u: "unpack_f (length (map pixel_color (ravel img))) (concat (map le_bytes ?ws))
      = Inr (map f32_value ?ws)"
    using unpack_f_pack [of ?ws] by simp
  have n: "(map f32_value ?ws) ! (i * dim1 img + j)
      = f32_value (word_of_int (pixel_color (elt img i j)))"
    if "i < dim0 img" "j < dim1 img" for i j
    using that row_major_less [OF that] ravel_nth [OF that]
    by (simp add: length_ravel)
  have len: "length (map f32_value ?ws) = dim0 img * dim1 img"
    by (simp add: length_ravel)
  show ?thesis
    unfolding rgb_to_float_def Let_def color_list
    by (simp add: bind_err_def pack_i_colors u reshape_def len n del: length_map map_map)
qed


lemma callback_Inr:
  assumes cp: "camera_params self = (w, h, f)" and f: "f \<noteq> 0"
    and c: "color_data ros_data = Npy img_color" and d: "depth_data ros_data = Npy img_depth"
    and sd: "dim0 img_depth = h" "dim1 img_depth = w"
    and sc: "dim0 img_color = h" "dim1 img_color = w"
  shows "\<exists>msg. callback py self ros_data = Inr (self\<lparr>pub := pub self @ [msg]\<rparr>)
     \<and> stamp msg = header_stamp ros_data \<and> frame_id msg = ''camera''
     \<and> width msg = h \<and> height msg = w
     \<and> point_step msg = 16 \<and> row_step msg = 16 * h
     \<and> is_dense msg \<and> \<not> is_bigendian msg
     \<and> length (data msg) = h * w
     \<and> (\<forall>i j. i < h \<longrightarrow> j < w \<longrightarrow> data msg ! (i * w + j) =
            (let dx = real j - py_half py (int w); dy = real i - py_half py (int h);
                 z = elt img_depth i j / sqrt (1 + (sqrt (dy\<^sup>2 + dx\<^sup>2) / f)\<^sup>2)
             in (Finite (z * dx / f), Finite (z * dy / f), Finite z,
                 f32_value (word_of_int (pixel_color (elt img_color i j))))))"
proof -
  from depth_to_3d_Inr [OF cp sd f, of py] obtain P where
    P: "depth_to_3d py self img_depth = Inr P" "dim0 P = h" "dim1 P = w"
    and Pe: "\<And>i j. i < h \<Longrightarrow> j < w \<Longrightarrow> elt P i j =
            (let dx = real j - py_half py (int w); dy = real i - py_half py (int h);
                 z = elt img_depth i j / sqrt (1 + (sqrt (dy\<^sup>2 + dx\<^sup>2) / f)\<^sup>2)
             in (Finite (z * dx / f), Finite (z * dy / f), Finite z))"
    by blast
  from rgb_to_float_Inr [of img_color] sc obtain C where
    C: "rgb_to_float img_color = Inr C" "dim0 C = h" "dim1 C = w"
    and Ce: "\<And>i j. i < h \<Longrightarrow> j < w \<Longrightarrow>
           elt C i j = f32_value (word_of_int (pixel_color (elt img_color i j)))"
    by auto
  have idx: "(i * w + j) div w = i" "(i * w + j) mod w = j" "i * w + j < h * w"
    if "i < h" "j < w" for i j
    using that row_major_less [OF that] by simp_all
  show ?thesis
    unfolding callback_def c d
    apply (simp add: bind_err_def P C dstack_rgb_def same_shape_def Let_def)
    apply (rule exI, rule conjI, rule refl)
    apply (simp add: ravel_def idx Pe Ce Let_def)
    done
qed

lemma spec_unpack_packed: "spec_unpack_rgb (spec_packed_rgb r g b) = (r, g, b)"
  unfolding spec_unpack_rgb_def spec_packed_rgb_def
  by (simp add: prod_eq_iff) (intro conjI; rule bit_word_eqI; auto simp: bit_simps dest: bit_imp_le_length)

lemma packed_plus_or:
  fixes r g b :: "8 word"
  shows "(push_bit 16 (ucast r) + push_bit 8 (ucast g) + ucast b :: 32 word) = spec_packed_rgb r g b"
proof -
  have 1: "(push_bit 16 (ucast r) + push_bit 8 (ucast g) :: 32 word)
      = push_bit 16 (ucast r) OR push_bit 8 (ucast g)"
    by (rule disjunctive_add_eq_or) (rule bit_word_eqI; auto simp: bit_simps dest: bit_imp_le_length)
  have 2: "((push_bit 16 (ucast r) OR push_bit 8 (ucast g)) + ucast b :: 32 word)
      = (push_bit 16 (ucast r) OR push_bit 8 (ucast g)) OR ucast b"
    by (rule disjunctive_add_eq_or) (rule bit_word_eqI; auto simp: bit_simps dest: bit_imp_le_length)
  show ?thesis by (simp add: 1 2 spec_packed_rgb_def or.assoc)
qed

lemma word_of_pixel_color: "word_of_int (pixel_color (r, g, b)) = spec_packed_rgb r g b"
  unfolding pixel_color_def packed_plus_or [symmetric]
  by (simp add: of_int_push_bit)

lemma pixel_color_uint: "pixel_color (r, g, b) = uint (spec_packed_rgb r g b)"
proof -
  have "uint (word_of_int (pixel_color (r, g, b)) :: 32 word) = pixel_color (r, g, b)"
    using pixel_color_bounds [of "(r, g, b)"]
    by (simp add: uint_word_of_int)
  then show ?thesis by (simp add: word_of_pixel_color)
qed

subsection \<open>The projection\<close>

text \<open>
  C3: for a depth image of the shape of the camera, a pixel (row, col) with the offsets
  dx = col - width/2 and dy = row - height/2 from the centre, r = sqrt (dx^2 + dy^2), a depth
  that is not negative and a focal length f > 0, \<^verbatim>\<open>depth_to_3d\<close> returns at that pixel
  z = depth / sqrt (1 + (r / f)^2), x = z dx / f and y = z dy / f, and the point is as far
  from the origin as the ray is long: sqrt (x^2 + y^2 + z^2) = depth. In the exact arithmetic
  of the model the two are equal.
\<close>

theorem projection_preserves_ray_length:
  assumes "camera_params self = (w, h, f)"
    and "dim0 img_depth = h" and "dim1 img_depth = w"
    and "row < h" and "col < w"
    and "0 \<le> elt img_depth row col" and "0 < f"
  shows "let dx = real col - py_half py (int w);
             dy = real row - py_half py (int h);
             r = sqrt (dx\<^sup>2 + dy\<^sup>2);
             depth = elt img_depth row col;
             z = depth / sqrt (1 + (r / f)\<^sup>2);
             x = z * dx / f;
             y = z * dy / f
         in (\<exists>P. depth_to_3d py self img_depth = Inr P
                 \<and> elt P row col = (Finite x, Finite y, Finite z))
            \<and> sqrt (x\<^sup>2 + y\<^sup>2 + z\<^sup>2) = depth"
proof -
  from assms have "f \<noteq> 0" by simp
  from depth_to_3d_at [OF assms(1-3) this assms(4,5), of py]
  show ?thesis
    using ray_length [OF \<open>f \<noteq> 0\<close> assms(6)]
    by (auto simp: Let_def add.commute)
qed

theorem projection_preserves_ray_length_witness:
  "let dx = real 0 - py_half Python3 (int 4);
       dy = real 0 - py_half Python3 (int 2);
       r = sqrt (dx\<^sup>2 + dy\<^sup>2);
       depth = elt example_depth 0 0;
       z = depth / sqrt (1 + (r / 1)\<^sup>2);
       x = z * dx / 1;
       y = z * dy / 1
   in (\<exists>P. depth_to_3d Python3 example_node example_depth = Inr P
           \<and> elt P 0 0 = (Finite x, Finite y, Finite z))
      \<and> sqrt (x\<^sup>2 + y\<^sup>2 + z\<^sup>2) = depth"
  by (rule projection_preserves_ray_length [of example_node 4 2 1 example_depth 0 0 Python3])
    (simp_all add: example_node_def example_depth_def)

text \<open>
  C4: at the pixel in the centre of the image, where dx = col - width/2 = 0 and
  dy = row - height/2 = 0, \<^verbatim>\<open>depth_to_3d\<close> returns x = 0, y = 0 and z equal to the depth of
  that pixel. The focal length is not zero (a camera has a positive one).
\<close>

theorem center_pixel_keeps_depth:
  assumes "camera_params self = (w, h, f)"
    and "dim0 img_depth = h" and "dim1 img_depth = w"
    and "row < h" and "col < w" and "f \<noteq> 0"
    and "real col - py_half py (int w) = 0" and "real row - py_half py (int h) = 0"
  shows "\<exists>P. depth_to_3d py self img_depth = Inr P
            \<and> elt P row col = (Finite 0, Finite 0, Finite (elt img_depth row col))"
  using depth_to_3d_at [OF assms(1-3) assms(6) assms(4,5), of py] assms(7,8)
  by (auto simp: Let_def)

theorem center_pixel_keeps_depth_witness:
  "\<exists>P. depth_to_3d Python3 example_node example_depth = Inr P
       \<and> elt P 1 2 = (Finite 0, Finite 0, Finite (elt example_depth 1 2))"
  by (rule center_pixel_keeps_depth [of example_node 4 2 1 example_depth 1 2 Python3])
    (simp_all add: example_node_def example_depth_def py_half_def)

text \<open>
  C10: for a depth that is not negative and a focal length f > 0, the axial depth z that
  \<^verbatim>\<open>depth_to_3d\<close> returns at a pixel lies between 0 and the depth of that pixel, the
  divisor sqrt (1 + (r / f)^2) being at least 1.
\<close>

theorem axial_depth_bounded:
  assumes "camera_params self = (w, h, f)"
    and "dim0 img_depth = h" and "dim1 img_depth = w"
    and "row < h" and "col < w"
    and "0 \<le> elt img_depth row col" and "0 < f"
  shows "\<exists>P x y z. depth_to_3d py self img_depth = Inr P
            \<and> elt P row col = (x, y, Finite z) \<and> 0 \<le> z \<and> z \<le> elt img_depth row col"
proof -
  from assms have "f \<noteq> 0" by simp
  from depth_to_3d_at [OF assms(1-3) this assms(4,5), of py]
  obtain P where P: "depth_to_3d py self img_depth = Inr P"
    and e: "elt P row col =
            (let dx = real col - py_half py (int w); dy = real row - py_half py (int h);
                 z = elt img_depth row col / sqrt (1 + (sqrt (dy\<^sup>2 + dx\<^sup>2) / f)\<^sup>2)
             in (Finite (z * dx / f), Finite (z * dy / f), Finite z))"
    by blast
  define q where "q = sqrt (1 + (sqrt ((real row - py_half py (int h))\<^sup>2
      + (real col - py_half py (int w))\<^sup>2) / f)\<^sup>2)"
  have q: "1 \<le> q" unfolding q_def by (rule axial_divisor_ge_1)
  have "0 \<le> elt img_depth row col / q" using assms(6) q by simp
  moreover have "elt img_depth row col / q \<le> elt img_depth row col"
    using assms(6) q
    by (simp add: divide_le_eq mult_left_mono [of 1 q "elt img_depth row col", simplified])
  ultimately show ?thesis
    using P e by (simp add: Let_def q_def)
qed

theorem axial_depth_bounded_witness:
  "\<exists>P x y z. depth_to_3d Python2 example_node example_depth = Inr P
       \<and> elt P 0 3 = (x, y, Finite z) \<and> 0 \<le> z \<and> z \<le> elt example_depth 0 3"
  by (rule axial_depth_bounded [of example_node 4 2 1 example_depth 0 3 Python2])
    (simp_all add: example_node_def example_depth_def)

subsection \<open>The published message\<close>

lemma example_callback_hyps:
  "camera_params example_node = (4, 2, 1)"
  "color_data example_frame = Npy example_color"
  "depth_data example_frame = Npy example_depth"
  "dim0 example_depth = 2" "dim1 example_depth = 4"
  "dim0 example_color = 2" "dim1 example_color = 4"
  by (simp_all add: example_node_def example_frame_def example_depth_def example_color_def)

lemma zero_depth_hyps:
  "color_data zero_depth_frame = Npy example_color"
  "depth_data zero_depth_frame = Npy zero_depth"
  "dim0 zero_depth = 2" "dim1 zero_depth = 4"
  "elt zero_depth i j = 0"
  by (simp_all add: zero_depth_frame_def zero_depth_def)

lemma red_packed: "spec_packed_rgb 255 0 0 = 0xFF0000"
  by (simp add: spec_packed_rgb_def)

lemma callback_InrD:
  assumes ok: "callback py self ros_data = Inr self'"
    and c: "color_data ros_data = Npy img_color"
  shows "\<exists>msg. self' = self\<lparr>pub := pub self @ [msg]\<rparr>
     \<and> length (data msg) = dim0 img_color * dim1 img_color
     \<and> (\<forall>i j. i < dim0 img_color \<longrightarrow> j < dim1 img_color \<longrightarrow>
          (\<exists>x y z. data msg ! (i * dim1 img_color + j) =
             (x, y, z, f32_value (word_of_int (pixel_color (elt img_color i j))))))"
proof -
  from rgb_to_float_Inr [of img_color] obtain C where
    C: "rgb_to_float img_color = Inr C" "dim0 C = dim0 img_color" "dim1 C = dim1 img_color"
    and Ce: "\<And>i j. i < dim0 img_color \<Longrightarrow> j < dim1 img_color \<Longrightarrow>
           elt C i j = f32_value (word_of_int (pixel_color (elt img_color i j)))"
    by auto
  from ok c obtain img_depth where d: "depth_data ros_data = Npy img_depth"
    by (cases "depth_data ros_data") (simp_all add: callback_def bind_err_def)
  from ok c d obtain P where P: "depth_to_3d py self img_depth = Inr P"
    by (cases "depth_to_3d py self img_depth") (simp_all add: callback_def bind_err_def)
  from ok have s: "dim0 P = dim0 img_color" "dim1 P = dim1 img_color"
    unfolding callback_def c d
    by (simp_all add: bind_err_def P C dstack_rgb_def same_shape_def split: if_splits)
  have idx: "(i * dim1 img_color + j) div dim1 img_color = i"
      "(i * dim1 img_color + j) mod dim1 img_color = j"
      "i * dim1 img_color + j < dim0 img_color * dim1 img_color"
    if "i < dim0 img_color" "j < dim1 img_color" for i j
    using that row_major_less [OF that] by simp_all
  from ok show ?thesis
    unfolding callback_def c d
    apply (simp add: bind_err_def P C dstack_rgb_def same_shape_def s Let_def)
    apply (rule exI, rule conjI, erule sym)
    apply (simp add: ravel_def s idx Ce split: prod.splits)
    done
qed

text \<open>
  C1: the message for an image of a given width and height has that width in its field
  \<open>width\<close>, that height in its field \<open>height\<close> and 16 times the width as \<open>row_step\<close>; for
  width 4 and height 2 these are 4, 2 and 64. The code does otherwise: \<^verbatim>\<open>depth_to_3d\<close>
  returns an array of height by width points, and \<^verbatim>\<open>callback\<close> takes its first extent
  for the width. In the scenario the message has width 2, height 4 and row_step 32.
\<close>

theorem scenario_width_height_swapped:
  "\<exists>msg. callback Python3 example_node example_frame = Inr (example_node\<lparr>pub := [msg]\<rparr>)
     \<and> width msg = 2 \<and> height msg = 4
     \<and> point_step msg = 16 \<and> row_step msg = 32 \<and> is_dense msg"
proof -
  have p: "pub example_node = []" by (simp add: example_node_def)
  from callback_Inr [of example_node 4 2 1 example_frame example_color example_depth Python3]
  show ?thesis
    by (simp add: example_callback_hyps p) blast
qed

text \<open>
  C2: for every pixel (r, g, b) of the colour image of a published message, the integer
  the code packs is \<^verbatim>\<open>(r<<16) | (g<<8) | b\<close>, the float in the rgb field is the binary32
  number with exactly these 32 bits, the cast to float32 and the bytes written to the
  message give these bits back, and the three channels are read back from them.
\<close>

theorem color_packing_roundtrip:
  assumes "callback py self ros_data = Inr self'"
    and "color_data ros_data = Npy img_color"
    and "i < dim0 img_color" and "j < dim1 img_color"
    and "elt img_color i j = (r, g, b)"
  shows "\<exists>x y z v. data (last (pub self')) ! (i * dim1 img_color + j) = (x, y, z, Finite v)
     \<and> pixel_color (r, g, b) = uint (spec_packed_rgb r g b)
     \<and> f32_value (spec_packed_rgb r g b) = Finite v
     \<and> np_float32 v = spec_packed_rgb r g b
     \<and> of_le_bytes (le_bytes (np_float32 v)) = spec_packed_rgb r g b
     \<and> spec_unpack_rgb (np_float32 v) = (r, g, b)"
proof -
  from callback_InrD [OF assms(1,2)] assms(3,4,5) obtain msg x y z where
    m: "self' = self\<lparr>pub := pub self @ [msg]\<rparr>"
    and e: "data msg ! (i * dim1 img_color + j) =
             (x, y, z, f32_value (word_of_int (pixel_color (r, g, b))))"
    by (metis (no_types, lifting))
  let ?c = "pixel_color (r, g, b)"
  let ?v = "real_of_int ?c / 2 ^ 149"
  have v: "f32_value (word_of_int ?c) = Finite ?v"
    by (rule f32_value_small [OF pixel_color_bounds])
  have n: "np_float32 ?v = spec_packed_rgb r g b"
    using np_float32_small [OF pixel_color_bounds, of "(r, g, b)"]
    by (simp only: word_of_pixel_color)
  have l: "data (last (pub self')) ! (i * dim1 img_color + j) = (x, y, z, Finite ?v)"
    by (simp add: m e v)
  have w: "f32_value (spec_packed_rgb r g b) = Finite ?v"
    using v by (simp only: word_of_pixel_color)
  have u: "spec_unpack_rgb (np_float32 ?v) = (r, g, b)"
    by (simp only: n spec_unpack_packed)
  have k: "of_le_bytes (le_bytes (np_float32 ?v)) = spec_packed_rgb r g b"
    by (simp only: n of_le_bytes_le_bytes)
  from l pixel_color_uint [of r g b] w n k u show ?thesis
    by blast
qed

theorem color_packing_roundtrip_witness:
  "\<exists>self'. callback Python3 example_node example_frame = Inr self'
     \<and> (\<exists>x y z v. data (last (pub self')) ! (1 * dim1 example_color + 2) = (x, y, z, Finite v)
          \<and> np_float32 v = 0xFF0000
          \<and> spec_unpack_rgb (np_float32 v) = (255, 0, 0))"
proof -
  from callback_Inr [of example_node 4 2 1 example_frame example_color example_depth Python3]
  obtain self' where c: "callback Python3 example_node example_frame = Inr self'"
    by (auto simp: example_callback_hyps)
  have e: "elt example_color 1 2 = (255, 0, 0)" "1 < dim0 example_color" "2 < dim1 example_color"
    by (simp_all add: example_color_def)
  from color_packing_roundtrip [OF c example_callback_hyps(2) e(2,3,1)] c show ?thesis
    by (auto simp: red_packed)
qed

text \<open>
  C8: for a depth image that is zero at every pixel and a focal length f > 0, the callback
  raises nothing, no element of the result comes from a division by zero, and every point
  of the message is (0, 0, 0, packed colour of the pixel).
\<close>

theorem zero_depth_gives_origin:
  assumes "camera_params self = (w, h, f)" and "0 < f"
    and "color_data ros_data = Npy img_color" and "depth_data ros_data = Npy img_depth"
    and "dim0 img_depth = h" and "dim1 img_depth = w"
    and "dim0 img_color = h" and "dim1 img_color = w"
    and zero: "\<And>i j. i < h \<Longrightarrow> j < w \<Longrightarrow> elt img_depth i j = 0"
  shows "\<exists>msg. callback py self ros_data = Inr (self\<lparr>pub := pub self @ [msg]\<rparr>)
     \<and> length (data msg) = h * w
     \<and> (\<forall>i j. i < h \<longrightarrow> j < w \<longrightarrow> data msg ! (i * w + j) =
           (Finite 0, Finite 0, Finite 0,
            Finite (real_of_int (pixel_color (elt img_color i j)) / 2 ^ 149)))"
proof -
  from assms(2) have f: "f \<noteq> 0" by simp
  from callback_Inr [OF assms(1) f assms(3-8), of py] obtain msg where
    m: "callback py self ros_data = Inr (self\<lparr>pub := pub self @ [msg]\<rparr>)"
       "length (data msg) = h * w"
    and d: "\<And>i j. i < h \<Longrightarrow> j < w \<Longrightarrow> data msg ! (i * w + j) =
            (let dx = real j - py_half py (int w); dy = real i - py_half py (int h);
                 z = elt img_depth i j / sqrt (1 + (sqrt (dy\<^sup>2 + dx\<^sup>2) / f)\<^sup>2)
             in (Finite (z * dx / f), Finite (z * dy / f), Finite z,
                 f32_value (word_of_int (pixel_color (elt img_color i j)))))"
    by blast
  have "data msg ! (i * w + j) =
           (Finite 0, Finite 0, Finite 0,
            Finite (real_of_int (pixel_color (elt img_color i j)) / 2 ^ 149))"
    if "i < h" "j < w" for i j
    using d [OF that] zero [OF that]
      f32_value_small [OF pixel_color_bounds, of "elt img_color i j"]
    by (simp only: Let_def) simp
  with m show ?thesis by blast
qed

theorem zero_depth_gives_origin_witness:
  "\<exists>msg. callback Python3 example_node zero_depth_frame
           = Inr (example_node\<lparr>pub := pub example_node @ [msg]\<rparr>)
     \<and> data msg ! (1 * 4 + 2) =
          (Finite 0, Finite 0, Finite 0,
           Finite (real_of_int (pixel_color (elt example_color 1 2)) / 2 ^ 149))"
proof -
  have "\<exists>msg. callback Python3 example_node zero_depth_frame
           = Inr (example_node\<lparr>pub := pub example_node @ [msg]\<rparr>)
     \<and> length (data msg) = 2 * 4
     \<and> (\<forall>i j. i < 2 \<longrightarrow> j < 4 \<longrightarrow> data msg ! (i * 4 + j) =
           (Finite 0, Finite 0, Finite 0,
            Finite (real_of_int (pixel_color (elt example_color i j)) / 2 ^ 149)))"
    by (rule zero_depth_gives_origin [of example_node 4 2 1 zero_depth_frame example_color zero_depth Python3])
      (simp_all add: example_callback_hyps zero_depth_hyps)
  then obtain msg where
    a: "callback Python3 example_node zero_depth_frame
           = Inr (example_node\<lparr>pub := pub example_node @ [msg]\<rparr>)"
    and b: "\<forall>i j. i < 2 \<longrightarrow> j < 4 \<longrightarrow> data msg ! (i * 4 + j) =
           (Finite 0, Finite 0, Finite 0,
            Finite (real_of_int (pixel_color (elt example_color i j)) / 2 ^ 149))"
    by blast
  from b [rule_format, of 1 2] have "data msg ! (1 * 4 + 2) =
          (Finite 0, Finite 0, Finite 0,
           Finite (real_of_int (pixel_color (elt example_color 1 2)) / 2 ^ 149))"
    by simp
  with a show ?thesis by blast
qed

subsection \<open>Initialisation and the state of the node\<close>

lemma init_Inr:
  "\<exists>self. init model_type_in (Inr resp) = Inr self
     \<and> camera_params self = (Width resp, Height resp, FocalLength resp)
     \<and> pub self = [] \<and> subscribed self"
  by (simp add: init_def bind_err_def Let_def)

lemma init_example: "init ''ground_truth'' (Inr example_response) = Inr example_node"
  by (simp add: init_def bind_err_def Let_def model_types_def example_response_def example_node_def)

lemma callback_camera_params:
  "callback py self ros_data = Inr self' \<Longrightarrow> camera_params self' = camera_params self"
  unfolding callback_def
  by (auto simp: bind_err_def Let_def split: sum.splits)

lemma run_camera_params:
  "camera_params (foldl (\<lambda>s d. case callback py s d of Inl e \<Rightarrow> s | Inr s' \<Rightarrow> s') self frames)
     = camera_params self"
proof (induction frames arbitrary: self)
  case Nil
  show ?case by simp
next
  case (Cons d frames)
  show ?case
  proof (cases "callback py self d")
    case (Inl e)
    then show ?thesis by (simp add: Cons.IH)
  next
    case (Inr s')
    then show ?thesis by (simp add: Cons.IH callback_camera_params [OF Inr])
  qed
qed

lemma init_unknown:
  "init ''lidar'' (Inr example_response)
     = Inr \<lparr>model = None, camera_params = (4, 2, 1), pub = [], subscribed = True,
            rosout = [(Fatal, take (length (unknown_model_warning ''lidar'') - 2)
                                (unknown_model_warning ''lidar'')),
                      (Info, ''Waiting for unreal_ros_client camera params ...''),
                      (Info, ''Sensor model setup cleanly.'')]\<rparr>"
  by (simp add: init_def bind_err_def Let_def model_types_def example_response_def)

lemma warning_text:
  "take (length (unknown_model_warning ''lidar'') - 2) (unknown_model_warning ''lidar'')
   = ''Unknown sensor model '' @ [CHR 0x27] @ ''lidar'' @ [CHR 0x27]
       @ ''. Implemented models are: '' @ [CHR 0x27] @ ''ground_truth'' @ [CHR 0x27]"
  by (simp add: unknown_model_warning_def model_types_def)

text \<open>
  C5: when the configured model name is not a supported one, initialisation fails and no
  frame is ever processed. The code does otherwise: \<^verbatim>\<open>rospy.logfatal\<close> only writes a line,
  \<^verbatim>\<open>__init__\<close> goes on, leaves \<^verbatim>\<open>self.model\<close> unset, subscribes and reports a clean setup,
  and the next frame is turned into a point cloud and published.
\<close>

theorem unknown_model_still_runs:
  "\<exists>self. init ''lidar'' (Inr example_response) = Inr self
     \<and> model self = None \<and> fst (hd (rosout self)) = Fatal \<and> subscribed self
     \<and> (\<exists>self'. callback Python3 self example_frame = Inr self' \<and> length (pub self') = 1)"
proof -
  let ?self = "\<lparr>model = None, camera_params = (4, 2, 1), pub = [], subscribed = True,
            rosout = [(Fatal, take (length (unknown_model_warning ''lidar'') - 2)
                                (unknown_model_warning ''lidar'')),
                      (Info, ''Waiting for unreal_ros_client camera params ...''),
                      (Info, ''Sensor model setup cleanly.'')]\<rparr>"
  from callback_Inr [of ?self 4 2 1 example_frame example_color example_depth Python3]
  obtain msg where "callback Python3 ?self example_frame = Inr (?self\<lparr>pub := pub ?self @ [msg]\<rparr>)"
    by (auto simp: example_callback_hyps)
  then have "\<exists>self'. callback Python3 ?self example_frame = Inr self' \<and> length (pub self') = 1"
    by simp
  then show ?thesis
    by (simp add: init_unknown)
qed

text \<open>
  C7, as the claim has it: construction fails when a dimension is not positive or the
  focal length is not. It does not: the reply (0, 0, 0.0) of the service is accepted.
\<close>

theorem zero_camera_accepted: "\<not> isl (init ''ground_truth'' (Inr zero_response))"
  by (simp add: init_def bind_err_def Let_def)

text \<open>
  C7, amended: \<^verbatim>\<open>__init__\<close> does not validate the camera parameters. Whatever width, height
  and focal length the service returns, construction succeeds and stores them as they
  are, and the pixel geometry computed from them (offsets and radial distance) has no
  error path.
\<close>

theorem init_stores_unchecked:
  "\<exists>self dx dy dist. init model_type_in (Inr resp) = Inr self
     \<and> camera_params self = (Width resp, Height resp, FocalLength resp)
     \<and> pixel_grid py self = Inr (dx, dy, dist)
     \<and> dim0 dist = Height resp \<and> dim1 dist = Width resp"
proof -
  from init_Inr [of model_type_in resp] obtain self where
    i: "init model_type_in (Inr resp) = Inr self"
    and cp: "camera_params self = (Width resp, Height resp, FocalLength resp)"
    by blast
  obtain dx dy dist where "pixel_grid py self = Inr (dx, dy, dist)"
    "dim0 dist = Height resp" "dim1 dist = Width resp"
    by (rule pixel_grid_at [OF cp, of py]) blast
  with i cp show ?thesis by blast
qed

text \<open>
  C9: the camera parameters are set once, in \<^verbatim>\<open>__init__\<close>, to the reply of the service, and
  no frame changes them: after any sequence of messages, whether \<^verbatim>\<open>callback\<close> published
  or raised on each, they are what the service returned. (\<^verbatim>\<open>depth_to_3d\<close> and
  \<^verbatim>\<open>rgb_to_float\<close> return arrays only and have no access to change the object.)
\<close>

theorem camera_params_never_change:
  assumes "init model_type_in (Inr resp) = Inr self"
  shows "camera_params
           (foldl (\<lambda>s d. case callback py s d of Inl e \<Rightarrow> s | Inr s' \<Rightarrow> s') self frames)
         = (Width resp, Height resp, FocalLength resp)"
proof -
  from init_Inr [of model_type_in resp] assms
  have "camera_params self = (Width resp, Height resp, FocalLength resp)" by auto
  then show ?thesis by (simp add: run_camera_params)
qed

theorem camera_params_never_change_witness:
  "camera_params
     (foldl (\<lambda>s d. case callback Python3 s d of Inl e \<Rightarrow> s | Inr s' \<Rightarrow> s') example_node
        [example_frame, one_row_frame, zero_depth_frame])
   = (Width example_response, Height example_response, FocalLength example_response)"
  by (rule camera_params_never_change [OF init_example])

subsection \<open>Frames of different shapes\<close>

lemma depth_to_3d_shape:
  assumes cp: "camera_params self = (w, h, f)"
  shows "case (broadcast_dim (dim0 d) h, broadcast_dim (dim1 d) w) of
           (Some n0, Some n1) \<Rightarrow>
             (\<exists>P. depth_to_3d py self d = Inr P \<and> dim0 P = n0 \<and> dim1 P = n1)
         | _ \<Rightarrow> depth_to_3d py self d = Inl ValueError"
proof -
  obtain dx dy dist where
    g: "pixel_grid py self = Inr (dx, dy, dist)"
    and dims: "dim0 dx = h" "dim1 dx = w" "dim0 dy = h" "dim1 dy = w" "dim0 dist = h" "dim1 dist = w"
    by (rule pixel_grid_at [OF cp, of py]) blast
  show ?thesis
    unfolding depth_to_3d_def Let_def g cp
    by (auto simp: bind_err_def np_binop_def arr_map_def dstack3_def same_shape_def dims
        broadcast_dim_def split: option.splits)
qed

text \<open>
  C6, as the claim has it: a colour and a depth image of different (height, width) always
  make the callback fail, and nothing is published. Not so: a depth image of one row is
  broadcast by numpy over the two rows of the camera grid, and the point cloud is
  published.
\<close>

theorem one_row_depth_is_published:
  "(dim0 one_row_depth, dim1 one_row_depth) \<noteq> (dim0 example_color, dim1 example_color)
   \<and> \<not> isl (callback Python3 example_node one_row_frame)
   \<and> length (pub (projr (callback Python3 example_node one_row_frame))) = 1"
proof -
  from rgb_to_float_Inr [of example_color] obtain C where
    C: "rgb_to_float example_color = Inr C" "dim0 C = 2" "dim1 C = 4"
    by (auto simp: example_color_def)
  from depth_to_3d_shape [where self = example_node and w = 4 and h = 2 and f = 1
      and d = one_row_depth and py = Python3] obtain P where
    P: "depth_to_3d Python3 example_node one_row_depth = Inr P" "dim0 P = 2" "dim1 P = 4"
    by (auto simp: example_node_def one_row_depth_def broadcast_dim_def)
  have p: "pub example_node = []" by (simp add: example_node_def)
  have s: "(dim0 one_row_depth, dim1 one_row_depth) \<noteq> (dim0 example_color, dim1 example_color)"
    by (simp add: one_row_depth_def example_color_def)
  have r: "callback Python3 example_node one_row_frame = Inr (example_node
      \<lparr>pub := pub example_node @ [last (pub (projr (callback Python3 example_node one_row_frame)))]\<rparr>)"
    unfolding callback_def
    by (simp add: one_row_frame_def bind_err_def C P dstack_rgb_def same_shape_def Let_def)
  have "\<not> isl (callback Python3 example_node one_row_frame)"
    by (subst r) simp
  moreover have "length (pub (projr (callback Python3 example_node one_row_frame))) = 1"
    by (subst r) (simp add: p)
  ultimately show ?thesis using s by simp
qed

text \<open>
  C6, amended: when the depth image differs from the colour image in height or in width,
  and its extent along that axis is not 1, the callback raises ValueError (numpy's; the
  code has no error of its own for this) and publishes nothing.
\<close>

theorem mismatch_raises_value_error:
  assumes cp: "camera_params self = (w, h, f)"
    and c: "color_data ros_data = Npy img_color" and d: "depth_data ros_data = Npy img_depth"
    and diff: "(dim0 img_depth \<noteq> dim0 img_color \<and> dim0 img_depth \<noteq> 1)
             \<or> (dim1 img_depth \<noteq> dim1 img_color \<and> dim1 img_depth \<noteq> 1)"
  shows "callback py self ros_data = Inl ValueError"
proof -
  from rgb_to_float_Inr [of img_color] obtain C where
    C: "rgb_to_float img_color = Inr C" "dim0 C = dim0 img_color" "dim1 C = dim1 img_color"
    by auto
  from depth_to_3d_shape [OF cp, where d = img_depth and py = py] diff show ?thesis
    unfolding callback_def c d
    by (auto simp: bind_err_def C dstack_rgb_def same_shape_def broadcast_dim_def
        split: option.splits if_splits)
qed

theorem mismatch_raises_value_error_witness: "callback Python3 example_node wide_color_frame = Inl ValueError"
  by (rule mismatch_raises_value_error [of example_node 4 2 1 wide_color_frame wide_color example_depth])
    (simp_all add: example_node_def wide_color_frame_def wide_color_def example_depth_def)

end
